theory Spec2Isabelle
  imports Complex_Main
begin

section \<open>Python values\<close>

text \<open>
  The module \<^verbatim>\<open>inventory_system.py\<close> checks the dynamic type of its arguments with
  \<^verbatim>\<open>isinstance\<close>, so the arguments it tests are modelled as dynamically typed values.
  In Python \<^verbatim>\<open>bool\<close> is a subclass of \<^verbatim>\<open>int\<close>: \<^verbatim>\<open>isinstance(True, int)\<close> holds,
  \<^verbatim>\<open>True\<close> compares and adds as 1 and \<^verbatim>\<open>False\<close> as 0. The instances of \<^verbatim>\<open>int\<close> are
  therefore a type of their own, \<open>pyint\<close>, and this is the type of the stored quantities
  (the annotation of the field is \<^verbatim>\<open>Dict[str, int]\<close>).
\<close>

datatype pyint = IntV int | BoolV bool

fun int_of :: "pyint \<Rightarrow> int" where
  "int_of (IntV i) = i"
| "int_of (BoolV b) = (if b then 1 else 0)"

text \<open>
  \<open>PFloat\<close> carries a payload that the program never inspects; \<open>POther\<close> stands for an
  object of any further type (a tuple, a set, bytes, a complex number), named by its repr.
\<close>

datatype pyval =
    PNone
  | PIntObj pyint
  | PFloat real
  | PStr string
  | PList "pyval list"
  | PDict "(pyval \<times> pyval) list"
  | POther string

text \<open>The exceptions of the module and of the library calls it makes.\<close>

datatype exn =
    ValueError string
  | KeyError string
  | FileNotFoundError string
  | JSONDecodeError
  | SyntaxError
  | TypeError
  | MemoryError
  | RecursionError

section \<open>Dictionaries\<close>

text \<open>
  A Python \<^verbatim>\<open>dict\<close> keeps its entries in insertion order: it is an association list with
  distinct keys. Assigning to a present key replaces the value in place, assigning to an
  absent key appends an entry, \<^verbatim>\<open>del\<close> removes the entry.
\<close>

primrec dict_setitem :: "'k \<Rightarrow> 'v \<Rightarrow> ('k \<times> 'v) list \<Rightarrow> ('k \<times> 'v) list" where
  "dict_setitem k v [] = [(k, v)]"
| "dict_setitem k v (p # ps) = (if fst p = k then (k, v) # ps else p # dict_setitem k v ps)"

primrec dict_delitem :: "'k \<Rightarrow> ('k \<times> 'v) list \<Rightarrow> ('k \<times> 'v) list" where
  "dict_delitem k [] = []"
| "dict_delitem k (p # ps) = (if fst p = k then dict_delitem k ps else p # dict_delitem k ps)"

definition dict_get :: "('k \<times> 'v) list \<Rightarrow> 'k \<Rightarrow> 'v \<Rightarrow> 'v" where
  "dict_get d k dflt = (case map_of d k of None \<Rightarrow> dflt | Some v \<Rightarrow> v)"

definition dict_keys :: "('k \<times> 'v) list \<Rightarrow> 'k list" where
  "dict_keys d = map fst d"

section \<open>The store\<close>

text \<open>Class \<^verbatim>\<open>InventorySystem\<close>: its one field is \<^verbatim>\<open>_inventory\<close>.\<close>

record InventorySystem =
  inventory :: "(string \<times> pyint) list"

text \<open>
  A method that mutates the store returns the outcome of the call together with the store
  as the call leaves it, so that what a raising call has already done stays visible.
\<close>

type_synonym 'a outcome = "(exn + 'a) \<times> InventorySystem"

text \<open>\<^verbatim>\<open>__init__\<close>: \<^verbatim>\<open>self._inventory = dict(initial or {})\<close>.\<close>

definition init :: "(string \<times> pyint) list option \<Rightarrow> InventorySystem" where
  "init initial =
     (case initial of
        None \<Rightarrow> \<lparr>inventory = []\<rparr>
      | Some d \<Rightarrow> \<lparr>inventory = (if d = [] then [] else d)\<rparr>)"

text \<open>\<^verbatim>\<open>add_item(name, qty)\<close>.\<close>

definition add_item :: "pyval \<Rightarrow> pyval \<Rightarrow> InventorySystem \<Rightarrow> unit outcome" where
  "add_item name qty s =
     (case name of
        PStr n \<Rightarrow>
          if n = [] then (Inl (ValueError ''name must be a non-empty string''), s)
          else
            (case qty of
               PIntObj q \<Rightarrow>
                 if int_of q \<le> 0 then (Inl (ValueError ''qty must be a positive integer''), s)
                 else
                   let prev = dict_get (inventory s) n (IntV 0)
                   in (Inr (),
                       s\<lparr>inventory := dict_setitem n (IntV (int_of prev + int_of q)) (inventory s)\<rparr>)
             | _ \<Rightarrow> (Inl (ValueError ''qty must be a positive integer''), s))
      | _ \<Rightarrow> (Inl (ValueError ''name must be a non-empty string''), s))"

text \<open>
  \<^verbatim>\<open>remove_item(name, qty)\<close>. The method does not test the type of \<open>name\<close>; it is a
  string, as annotated.
\<close>

definition remove_item :: "string \<Rightarrow> pyval \<Rightarrow> InventorySystem \<Rightarrow> unit outcome" where
  "remove_item name qty s =
     (case qty of
        PIntObj q \<Rightarrow>
          if int_of q \<le> 0 then (Inl (ValueError ''qty must be a positive integer''), s)
          else
            (case map_of (inventory s) name of
               None \<Rightarrow> (Inl (KeyError (''item '' @ [CHR 0x27] @ name @ [CHR 0x27] @ '' not found'')), s)
             | Some cur \<Rightarrow>
                 if int_of cur < int_of q
                 then (Inl (ValueError ''not enough quantity to remove''), s)
                 else
                   let s1 = s\<lparr>inventory :=
                              dict_setitem name (IntV (int_of cur - int_of q)) (inventory s)\<rparr>
                   in if int_of (dict_get (inventory s1) name (IntV 0)) = 0
                      then (Inr (), s1\<lparr>inventory := dict_delitem name (inventory s1)\<rparr>)
                      else (Inr (), s1))
      | _ \<Rightarrow> (Inl (ValueError ''qty must be a positive integer''), s))"

text \<open>\<^verbatim>\<open>get_qty(name)\<close>: \<^verbatim>\<open>int(self._inventory.get(name, 0))\<close>. It reads the store only.\<close>

definition get_qty :: "InventorySystem \<Rightarrow> string \<Rightarrow> int" where
  "get_qty s name = int_of (dict_get (inventory s) name (IntV 0))"

text \<open>\<^verbatim>\<open>check_low_items(threshold)\<close>. It reads the store only.\<close>

definition check_low_items :: "InventorySystem \<Rightarrow> pyval \<Rightarrow> exn + string list" where
  "check_low_items s threshold =
     (case threshold of
        PIntObj t \<Rightarrow>
          if int_of t < 0 then Inl (ValueError ''threshold must be a non-negative integer'')
          else Inr (map fst (filter (\<lambda>(name, qty). int_of qty \<le> int_of t) (inventory s)))
      | _ \<Rightarrow> Inl (ValueError ''threshold must be a non-negative integer''))"

text \<open>\<^verbatim>\<open>as_dict()\<close>: a copy of the mapping.\<close>

definition as_dict :: "InventorySystem \<Rightarrow> (string \<times> pyint) list" where
  "as_dict s = inventory s"

section \<open>Persistence\<close>

text \<open>
  A file holds a JSON document or text that is not JSON. The document is kept as its
  syntax tree; an object may repeat a key.
\<close>

datatype json =
    JNull
  | JBool bool
  | JInt int
  | JFloat real
  | JString string
  | JArray "json list"
  | JObject "(string \<times> json) list"

datatype file_content = NotJson | Json json

type_synonym fs = "string \<Rightarrow> file_content option"

text \<open>
  \<^verbatim>\<open>json.load\<close>: numbers without fraction or exponent become \<^verbatim>\<open>int\<close>, \<^verbatim>\<open>true\<close> and
  \<^verbatim>\<open>false\<close> become \<^verbatim>\<open>bool\<close>, an object becomes a \<^verbatim>\<open>dict\<close> with string keys, filled in
  document order, so that a repeated key keeps its first position and its last value.
\<close>

fun json_load :: "json \<Rightarrow> pyval" where
  "json_load JNull = PNone"
| "json_load (JBool b) = PIntObj (BoolV b)"
| "json_load (JInt i) = PIntObj (IntV i)"
| "json_load (JFloat r) = PFloat r"
| "json_load (JString s) = PStr s"
| "json_load (JArray xs) = PList (map json_load xs)"
| "json_load (JObject kvs) =
     PDict (fold (\<lambda>p d. dict_setitem (fst p) (snd p) d)
                 (map (\<lambda>p. (PStr (fst p), json_load (snd p))) kvs) [])"



text \<open>
  \<^verbatim>\<open>ast.literal_eval\<close> belongs to the standard library, not to the module. It is a
  parameter of the model: a function from the string to what the call does, which is to
  raise an exception or to return a value.
\<close>

datatype lit_result = Raises exn | Returns pyval

text \<open>\<^verbatim>\<open>except (ValueError, SyntaxError)\<close>.\<close>

fun caught :: "exn \<Rightarrow> bool" where
  "caught (ValueError m) = True"
| "caught SyntaxError = True"
| "caught e = False"

text \<open>The loop of \<^verbatim>\<open>load_data\<close> over \<^verbatim>\<open>data.items()\<close>, filling the local \<^verbatim>\<open>normalized\<close>.\<close>

fun load_loop ::
  "(string \<Rightarrow> lit_result) \<Rightarrow> (pyval \<times> pyval) list \<Rightarrow> (string \<times> pyint) list
     \<Rightarrow> exn + (string \<times> pyint) list" where
  "load_loop literal_eval [] normalized = Inr normalized"
| "load_loop literal_eval ((k, v) # rest) normalized =
     (case k of
        PStr key \<Rightarrow>
          (case v of
             PIntObj i \<Rightarrow> load_loop literal_eval rest (dict_setitem key i normalized)
           | PStr sv \<Rightarrow>
               (case literal_eval sv of
                  Raises e \<Rightarrow>
                    if caught e then Inl (ValueError (''invalid quantity for item '' @ key))
                    else Inl e
                | Returns v_eval \<Rightarrow>
                    (case v_eval of
                       PIntObj i \<Rightarrow> load_loop literal_eval rest (dict_setitem key i normalized)
                     | _ \<Rightarrow> Inl (ValueError (''invalid quantity for item '' @ key))))
           | _ \<Rightarrow> Inl (ValueError (''invalid quantity type for item '' @ key)))
      | _ \<Rightarrow> Inl (ValueError ''inventory keys must be strings''))"

text \<open>\<^verbatim>\<open>load_data(filepath)\<close>, reading the file system \<open>files\<close>.\<close>

definition load_data ::
  "(string \<Rightarrow> lit_result) \<Rightarrow> fs \<Rightarrow> string \<Rightarrow> InventorySystem \<Rightarrow> unit outcome" where
  "load_data literal_eval files filepath s =
     (case files filepath of
        None \<Rightarrow> (Inl (FileNotFoundError (filepath @ '' not found'')), s)
      | Some NotJson \<Rightarrow> (Inl JSONDecodeError, s)
      | Some (Json doc) \<Rightarrow>
          (case json_load doc of
             PDict items \<Rightarrow>
               (case load_loop literal_eval items [] of
                  Inl e \<Rightarrow> (Inl e, s)
                | Inr normalized \<Rightarrow> (Inr (), s\<lparr>inventory := normalized\<rparr>))
           | _ \<Rightarrow>
               (Inl (ValueError
                  ''inventory file must contain a JSON object mapping names to integers''), s)))"


section \<open>An evaluator of decimal literals\<close>

text \<open>
  One function of the type of the parameter \<open>literal_eval\<close>, used where a concrete
  evaluator is needed. On an optionally signed decimal integer literal without leading
  zeros it returns the integer, as \<^verbatim>\<open>ast.literal_eval\<close> does; on every other string it
  raises \<^verbatim>\<open>ValueError\<close>. The library function accepts more strings than this one.
\<close>

definition digit_value :: "char \<Rightarrow> nat option" where
  "digit_value c = map_of (zip ''0123456789'' [0, 1, 2, 3, 4, 5, 6, 7, 8, 9]) c"

fun decimal_value :: "string \<Rightarrow> nat \<Rightarrow> nat option" where
  "decimal_value [] acc = Some acc"
| "decimal_value (c # cs) acc =
     (case digit_value c of None \<Rightarrow> None | Some d \<Rightarrow> decimal_value cs (10 * acc + d))"

definition decimal_literal_eval :: "string \<Rightarrow> lit_result" where
  "decimal_literal_eval sv =
     (let signed = (sv \<noteq> [] \<and> (hd sv = CHR ''-'' \<or> hd sv = CHR ''+''));
          negative = (sv \<noteq> [] \<and> hd sv = CHR ''-'');
          digits = (if signed then tl sv else sv)
      in if digits = [] \<or> (hd digits = CHR ''0'' \<and> tl digits \<noteq> [])
         then Raises (ValueError ''malformed node or string'')
         else
           (case decimal_value digits 0 of
              None \<Rightarrow> Raises (ValueError ''malformed node or string'')
            | Some n \<Rightarrow> Returns (PIntObj (IntV (if negative then - int n else int n)))))"

section \<open>Vocabulary of the specification\<close>

text \<open>A name the specification allows: a non-empty string.\<close>

definition nonempty_str :: "pyval \<Rightarrow> bool" where
  "nonempty_str v = (case v of PStr n \<Rightarrow> n \<noteq> [] | _ \<Rightarrow> False)"

text \<open>
  A quantity that \<^verbatim>\<open>isinstance(qty, int)\<close> and \<^verbatim>\<open>qty > 0\<close> accept: an instance of
  \<^verbatim>\<open>int\<close>, booleans included, whose numeric value is positive.
\<close>

definition positive_int_instance :: "pyval \<Rightarrow> bool" where
  "positive_int_instance v = (case v of PIntObj q \<Rightarrow> 0 < int_of q | _ \<Rightarrow> False)"

text \<open>\<^verbatim>\<open>isinstance(v, int)\<close> and \<^verbatim>\<open>isinstance(v, str)\<close>.\<close>

definition int_instance :: "pyval \<Rightarrow> bool" where
  "int_instance v = (case v of PIntObj i \<Rightarrow> True | _ \<Rightarrow> False)"

definition str_instance :: "pyval \<Rightarrow> bool" where
  "str_instance v = (case v of PStr s \<Rightarrow> True | _ \<Rightarrow> False)"

text \<open>
  The invariant of the data model: every key is a non-empty string and every value is an
  integer greater than 0.
\<close>

definition positive_integer :: "pyint \<Rightarrow> bool" where
  "positive_integer v = (case v of IntV i \<Rightarrow> 0 < i | BoolV b \<Rightarrow> False)"

definition inv_ok :: "InventorySystem \<Rightarrow> bool" where
  "inv_ok s = list_all (\<lambda>p. fst p \<noteq> [] \<and> positive_integer (snd p)) (inventory s)"

section \<open>Facts about dictionaries\<close>

lemma map_of_dict_setitem: "map_of (dict_setitem k v d) = (map_of d)(k \<mapsto> v)"
  by (induction d) auto


lemma keys_dict_setitem: "fst ` set (dict_setitem k v d) = insert k (fst ` set d)"
  by (induction d) auto


lemma set_dict_setitem: "set (dict_setitem k v d) \<subseteq> insert (k, v) (set d)"
  by (induction d) auto

lemma set_dict_delitem: "set (dict_delitem k d) \<subseteq> set d"
  by (induction d) auto





section \<open>Removing\<close>

text \<open>
  Claim C1. A call of \<^verbatim>\<open>remove_item\<close> that raises, for whatever reason, leaves the store
  as it was before the call. In particular, on the store created empty, after adding 5 of
  \<^verbatim>\<open>x\<close> the removal of 10 raises \<^verbatim>\<open>ValueError("not enough quantity to remove")\<close> and the
  quantity of \<^verbatim>\<open>x\<close> is still 5.
\<close>

theorem remove_item_failure_keeps_store:
  "(fst (remove_item name qty s) = Inl e \<longrightarrow> snd (remove_item name qty s) = s) \<and>
   remove_item ''x'' (PIntObj (IntV 10))
       (snd (add_item (PStr ''x'') (PIntObj (IntV 5)) (init None)))
     = (Inl (ValueError ''not enough quantity to remove''),
        snd (add_item (PStr ''x'') (PIntObj (IntV 5)) (init None))) \<and>
   get_qty (snd (remove_item ''x'' (PIntObj (IntV 10))
       (snd (add_item (PStr ''x'') (PIntObj (IntV 5)) (init None))))) ''x'' = 5"
proof (intro conjI)
  show "fst (remove_item name qty s) = Inl e \<longrightarrow> snd (remove_item name qty s) = s"
    by (auto simp: remove_item_def Let_def split: pyval.splits option.splits if_splits)
next
  show "remove_item ''x'' (PIntObj (IntV 10))
       (snd (add_item (PStr ''x'') (PIntObj (IntV 5)) (init None)))
     = (Inl (ValueError ''not enough quantity to remove''),
        snd (add_item (PStr ''x'') (PIntObj (IntV 5)) (init None)))"
    by (simp add: add_item_def remove_item_def init_def dict_get_def)
next
  show "get_qty (snd (remove_item ''x'' (PIntObj (IntV 10))
       (snd (add_item (PStr ''x'') (PIntObj (IntV 5)) (init None))))) ''x'' = 5"
    by (simp add: add_item_def remove_item_def init_def get_qty_def dict_get_def)
qed

theorem remove_item_failure_keeps_store_witness:
  "fst (remove_item ''y'' (PIntObj (IntV 1)) \<lparr>inventory = [(''x'', IntV 5)]\<rparr>)
     = Inl (KeyError ''item 'y' not found'')
   \<and> snd (remove_item ''y'' (PIntObj (IntV 1)) \<lparr>inventory = [(''x'', IntV 5)]\<rparr>)
     = \<lparr>inventory = [(''x'', IntV 5)]\<rparr>"
  using remove_item_failure_keeps_store
    [of "''y''" "PIntObj (IntV 1)" "\<lparr>inventory = [(''x'', IntV 5)]\<rparr>"
        "KeyError ''item 'y' not found''"]
  by (simp add: remove_item_def)







section \<open>Low stock\<close>

lemma check_low_items_set:
  assumes "0 \<le> int_of t" and "distinct (dict_keys (as_dict s))"
  shows "\<exists>names. check_low_items s (PIntObj t) = Inr names \<and>
           set names = {n \<in> set (dict_keys (as_dict s)). get_qty s n \<le> int_of t}"
proof -
  have d: "distinct (map fst (inventory s))"
    using assms(2) by (simp add: dict_keys_def as_dict_def)
  have "set (map fst (filter (\<lambda>(name, qty). int_of qty \<le> int_of t) (inventory s)))
          = {n \<in> fst ` set (inventory s). get_qty s n \<le> int_of t}"
    using d by (force simp: get_qty_def dict_get_def)
  then show ?thesis
    using assms(1) by (simp add: check_low_items_def dict_keys_def as_dict_def)
qed

text \<open>
  Claim C4. For an integer threshold, \<^verbatim>\<open>check_low_items\<close> raises \<^verbatim>\<open>ValueError\<close> when the
  threshold is negative; otherwise it returns names whose set is exactly the set of the
  keys whose current quantity is at most the threshold, equality included. On
  \<^verbatim>\<open>{a: 3, b: 5, c: 6}\<close> with threshold 5 it returns \<^verbatim>\<open>a\<close> and \<^verbatim>\<open>b\<close>.
\<close>

theorem check_low_items_contract:
  "(int_of t < 0 \<longrightarrow>
      check_low_items s (PIntObj t)
        = Inl (ValueError ''threshold must be a non-negative integer'')) \<and>
   (0 \<le> int_of t \<and> distinct (dict_keys (as_dict s)) \<longrightarrow>
      (\<exists>names. check_low_items s (PIntObj t) = Inr names \<and>
         set names = {n \<in> set (dict_keys (as_dict s)). get_qty s n \<le> int_of t})) \<and>
   check_low_items \<lparr>inventory = [(''a'', IntV 3), (''b'', IntV 5), (''c'', IntV 6)]\<rparr>
       (PIntObj (IntV 5)) = Inr [''a'', ''b'']"
  using check_low_items_set [of t s]
  by (simp add: check_low_items_def)

theorem check_low_items_contract_witness:
  "check_low_items \<lparr>inventory = [(''a'', IntV 3), (''b'', IntV 5), (''c'', IntV 6)]\<rparr>
       (PIntObj (IntV (- 1)))
     = Inl (ValueError ''threshold must be a non-negative integer'') \<and>
   (\<exists>names.
      check_low_items \<lparr>inventory = [(''a'', IntV 3), (''b'', IntV 5), (''c'', IntV 6)]\<rparr>
          (PIntObj (IntV 5)) = Inr names \<and>
      set names = {''a'', ''b''})"
  using check_low_items_contract
      [of "IntV (- 1)" "\<lparr>inventory = [(''a'', IntV 3), (''b'', IntV 5), (''c'', IntV 6)]\<rparr>"]
    check_low_items_contract
      [of "IntV 5" "\<lparr>inventory = [(''a'', IntV 3), (''b'', IntV 5), (''c'', IntV 6)]\<rparr>"]
  by (simp add: check_low_items_def)

section \<open>Adding\<close>

text \<open>
  Claim C2, counterexample. A boolean quantity is not rejected: \<^verbatim>\<open>isinstance(True, int)\<close>
  holds, so \<^verbatim>\<open>add_item("x", True)\<close> on the empty store returns and stores 1 for \<^verbatim>\<open>x\<close>.
\<close>

theorem add_item_accepts_true:
  "add_item (PStr ''x'') (PIntObj (BoolV True)) (init None)
     = (Inr (), \<lparr>inventory = [(''x'', IntV 1)]\<rparr>)"
  by (simp add: add_item_def init_def dict_get_def)

lemma add_item_fails_iff:
  "(fst (add_item name qty s) = Inl (ValueError ''name must be a non-empty string'')
      \<or> fst (add_item name qty s) = Inl (ValueError ''qty must be a positive integer''))
     \<longleftrightarrow> \<not> nonempty_str name \<or> \<not> positive_int_instance qty"
  by (auto simp: add_item_def nonempty_str_def positive_int_instance_def Let_def
           split: pyval.splits)

lemma add_item_success:
  assumes "n \<noteq> []" and "0 < int_of q"
  shows "fst (add_item (PStr n) (PIntObj q) s) = Inr ()"
    and "get_qty (snd (add_item (PStr n) (PIntObj q) s)) n = get_qty s n + int_of q"
    and "k \<noteq> n \<Longrightarrow> map_of (inventory (snd (add_item (PStr n) (PIntObj q) s))) k
                     = map_of (inventory s) k"
  using assms
  by (simp_all add: add_item_def get_qty_def dict_get_def Let_def map_of_dict_setitem)

text \<open>
  Claim C2, amended. \<^verbatim>\<open>add_item\<close> raises \<^verbatim>\<open>ValueError\<close> exactly when the name is not a
  non-empty string or the quantity is not an instance of \<^verbatim>\<open>int\<close> (booleans are instances,
  \<^verbatim>\<open>True\<close> counting as 1 and \<^verbatim>\<open>False\<close> as 0) with a positive value. Otherwise it returns,
  the quantity of the name is its previous quantity (0 if absent) plus the value given,
  and no other entry changes. \<^verbatim>\<open>add_item("", 1)\<close>, \<^verbatim>\<open>add_item("x", 0)\<close> and
  \<^verbatim>\<open>add_item("x", -1)\<close> raise \<^verbatim>\<open>ValueError\<close>.
\<close>

theorem add_item_contract:
  "((fst (add_item name qty s) = Inl (ValueError ''name must be a non-empty string'')
      \<or> fst (add_item name qty s) = Inl (ValueError ''qty must be a positive integer''))
     \<longleftrightarrow> \<not> nonempty_str name \<or> \<not> positive_int_instance qty) \<and>
   (n \<noteq> [] \<and> 0 < int_of q \<longrightarrow>
      fst (add_item (PStr n) (PIntObj q) s) = Inr () \<and>
      get_qty (snd (add_item (PStr n) (PIntObj q) s)) n = get_qty s n + int_of q \<and>
      (\<forall>k. k \<noteq> n \<longrightarrow>
         map_of (inventory (snd (add_item (PStr n) (PIntObj q) s))) k
           = map_of (inventory s) k)) \<and>
   fst (add_item (PStr '''') (PIntObj (IntV 1)) s)
     = Inl (ValueError ''name must be a non-empty string'') \<and>
   fst (add_item (PStr ''x'') (PIntObj (IntV 0)) s)
     = Inl (ValueError ''qty must be a positive integer'') \<and>
   fst (add_item (PStr ''x'') (PIntObj (IntV (- 1))) s)
     = Inl (ValueError ''qty must be a positive integer'')"
proof (intro conjI)
  show "(fst (add_item name qty s) = Inl (ValueError ''name must be a non-empty string'')
      \<or> fst (add_item name qty s) = Inl (ValueError ''qty must be a positive integer''))
     \<longleftrightarrow> \<not> nonempty_str name \<or> \<not> positive_int_instance qty"
    by (rule add_item_fails_iff)
next
  show "n \<noteq> [] \<and> 0 < int_of q \<longrightarrow>
      fst (add_item (PStr n) (PIntObj q) s) = Inr () \<and>
      get_qty (snd (add_item (PStr n) (PIntObj q) s)) n = get_qty s n + int_of q \<and>
      (\<forall>k. k \<noteq> n \<longrightarrow>
         map_of (inventory (snd (add_item (PStr n) (PIntObj q) s))) k
           = map_of (inventory s) k)"
    using add_item_success by blast
qed (simp_all add: add_item_def)

theorem add_item_contract_witness:
  "fst (add_item (PStr ''nut'') (PIntObj (IntV 2))
       \<lparr>inventory = [(''bolt'', IntV 7), (''nut'', IntV 3)]\<rparr>) = Inr () \<and>
   get_qty (snd (add_item (PStr ''nut'') (PIntObj (IntV 2))
       \<lparr>inventory = [(''bolt'', IntV 7), (''nut'', IntV 3)]\<rparr>)) ''nut'' = 5 \<and>
   map_of (inventory (snd (add_item (PStr ''nut'') (PIntObj (IntV 2))
       \<lparr>inventory = [(''bolt'', IntV 7), (''nut'', IntV 3)]\<rparr>))) ''bolt'' = Some (IntV 7) \<and>
   \<not> nonempty_str (PStr '''') \<and>
   fst (add_item (PStr '''') (PFloat 1) \<lparr>inventory = []\<rparr>)
     = Inl (ValueError ''name must be a non-empty string'')"
  using add_item_contract
    [of "PStr ''''" "PFloat 1" "\<lparr>inventory = [(''bolt'', IntV 7), (''nut'', IntV 3)]\<rparr>"
        "''nut''" "IntV 2"]
    add_item_contract
    [of "PStr ''''" "PFloat 1" "\<lparr>inventory = []\<rparr>" "''nut''" "IntV 2"]
  by (simp add: get_qty_def dict_get_def nonempty_str_def add_item_def)

section \<open>Construction\<close>

text \<open>
  Claim C9. The constructor validates nothing: for every initial mapping the store holds
  that mapping, \<^verbatim>\<open>as_dict()\<close> returns it unchanged and \<^verbatim>\<open>get_qty\<close> reads back the value of
  every entry, also for an empty key, a zero quantity and a negative quantity. Without an
  initial mapping the store is empty.
\<close>

theorem init_stores_initial:
  "init None = \<lparr>inventory = []\<rparr> \<and>
   as_dict (init (Some d)) = d \<and>
   (distinct (dict_keys d) \<and> (k, v) \<in> set d \<longrightarrow> get_qty (init (Some d)) k = int_of v) \<and>
   as_dict (init (Some [('''', IntV 4), (''zero'', IntV 0), (''neg'', IntV (- 2))]))
     = [('''', IntV 4), (''zero'', IntV 0), (''neg'', IntV (- 2))] \<and>
   get_qty (init (Some [('''', IntV 4), (''zero'', IntV 0), (''neg'', IntV (- 2))])) ''neg''
     = - 2"
  by (auto simp: init_def as_dict_def get_qty_def dict_get_def dict_keys_def)

theorem init_stores_initial_witness:
  "get_qty (init (Some [('''', IntV 4), (''zero'', IntV 0), (''neg'', IntV (- 2))])) '''' = 4 \<and>
   get_qty (init (Some [('''', IntV 4), (''zero'', IntV 0), (''neg'', IntV (- 2))])) ''zero'' = 0"
  using init_stores_initial
      [of "[('''', IntV 4), (''zero'', IntV 0), (''neg'', IntV (- 2))]" "''''" "IntV 4"]
    init_stores_initial
      [of "[('''', IntV 4), (''zero'', IntV 0), (''neg'', IntV (- 2))]" "''zero''" "IntV 0"]
  by (simp add: dict_keys_def)

section \<open>Loading\<close>

text \<open>
  Claim C5. A call of \<^verbatim>\<open>load_data\<close> that raises, for whatever reason, leaves the store as
  it was before the call: the entries are collected in a local dictionary and the store
  is assigned once, after the loop. A file whose top level is an array raises
  \<^verbatim>\<open>ValueError\<close> and leaves the store unchanged.
\<close>

theorem load_data_failure_keeps_store:
  "(fst (load_data literal_eval files filepath s) = Inl e \<longrightarrow>
      snd (load_data literal_eval files filepath s) = s) \<and>
   (files filepath = Some (Json (JArray xs)) \<longrightarrow>
      load_data literal_eval files filepath s
        = (Inl (ValueError
             ''inventory file must contain a JSON object mapping names to integers''), s))"
  by (auto simp: load_data_def split: option.splits file_content.splits pyval.splits sum.splits)

theorem load_data_failure_keeps_store_witness:
  "load_data decimal_literal_eval
       [''inventory.json'' \<mapsto> Json (JArray [JInt 1])] ''inventory.json''
       \<lparr>inventory = [(''x'', IntV 5)]\<rparr>
     = (Inl (ValueError
          ''inventory file must contain a JSON object mapping names to integers''),
        \<lparr>inventory = [(''x'', IntV 5)]\<rparr>) \<and>
   fst (load_data decimal_literal_eval
       [''inventory.json'' \<mapsto> Json (JObject [(''a'', JInt 1), (''b'', JString ''abc'')])]
       ''inventory.json'' \<lparr>inventory = [(''x'', IntV 5)]\<rparr>)
     = Inl (ValueError ''invalid quantity for item b'') \<and>
   snd (load_data decimal_literal_eval
       [''inventory.json'' \<mapsto> Json (JObject [(''a'', JInt 1), (''b'', JString ''abc'')])]
       ''inventory.json'' \<lparr>inventory = [(''x'', IntV 5)]\<rparr>)
     = \<lparr>inventory = [(''x'', IntV 5)]\<rparr>"
  using load_data_failure_keeps_store
      [of decimal_literal_eval "[''inventory.json'' \<mapsto> Json (JArray [JInt 1])]"
          "''inventory.json''" "\<lparr>inventory = [(''x'', IntV 5)]\<rparr>"
          "ValueError ''inventory file must contain a JSON object mapping names to integers''"
          "[JInt 1]"]
    load_data_failure_keeps_store
      [of decimal_literal_eval
          "[''inventory.json'' \<mapsto> Json (JObject [(''a'', JInt 1), (''b'', JString ''abc'')])]"
          "''inventory.json''" "\<lparr>inventory = [(''x'', IntV 5)]\<rparr>"
          "ValueError ''invalid quantity for item b''" "[]"]
  by (simp add: load_data_def decimal_literal_eval_def digit_value_def)

text \<open>
  Claim C6, counterexample. A boolean value is not rejected: \<^verbatim>\<open>json.load\<close> turns
  \<^verbatim>\<open>true\<close> into \<^verbatim>\<open>True\<close>, \<^verbatim>\<open>isinstance(True, int)\<close> holds, and loading \<^verbatim>\<open>{"x": true}\<close>
  returns with \<^verbatim>\<open>True\<close> stored for \<^verbatim>\<open>x\<close>.
\<close>

theorem load_data_accepts_true:
  "load_data decimal_literal_eval
       [''inventory.json'' \<mapsto> Json (JObject [(''x'', JBool True)])] ''inventory.json''
       (init None)
     = (Inr (), \<lparr>inventory = [(''x'', BoolV True)]\<rparr>)"
  by (simp add: load_data_def init_def)

lemma load_data_single:
  "load_data literal_eval (files(filepath \<mapsto> Json (JObject [(key, jv)]))) filepath s
     = (case load_loop literal_eval [(PStr key, json_load jv)] [] of
          Inl e \<Rightarrow> (Inl e, s)
        | Inr normalized \<Rightarrow> (Inr (), s\<lparr>inventory := normalized\<rparr>))"
  by (simp add: load_data_def)

text \<open>
  Claim C6, amended. For every entry that the loop of \<^verbatim>\<open>load_data\<close> processes under a
  string key: a value that is an instance of \<^verbatim>\<open>int\<close>, a boolean included, is stored as it
  is; a string value is given to \<^verbatim>\<open>ast.literal_eval\<close>, and when that returns an instance
  of \<^verbatim>\<open>int\<close> the result is stored, while \<^verbatim>\<open>ValueError\<close> is raised when it raises
  \<^verbatim>\<open>ValueError\<close> or \<^verbatim>\<open>SyntaxError\<close> or returns a value of another type; a value that is
  neither an instance of \<^verbatim>\<open>int\<close> nor a string raises \<^verbatim>\<open>ValueError\<close>. With
  \<^verbatim>\<open>literal_eval("5") = 5\<close>, loading \<^verbatim>\<open>{"x": "5"}\<close> returns and the quantity of \<^verbatim>\<open>x\<close> is 5;
  with \<^verbatim>\<open>literal_eval("abc")\<close> raising \<^verbatim>\<open>ValueError\<close>, loading \<^verbatim>\<open>{"x": "abc"}\<close> raises
  \<^verbatim>\<open>ValueError\<close>.
\<close>

theorem load_loop_entry:
  "load_loop literal_eval ((PStr key, PIntObj i) # rest) normalized
     = load_loop literal_eval rest (dict_setitem key i normalized) \<and>
   (literal_eval sv = Returns (PIntObj i) \<longrightarrow>
      load_loop literal_eval ((PStr key, PStr sv) # rest) normalized
        = load_loop literal_eval rest (dict_setitem key i normalized)) \<and>
   (literal_eval sv = Raises e \<and> caught e \<longrightarrow>
      load_loop literal_eval ((PStr key, PStr sv) # rest) normalized
        = Inl (ValueError (''invalid quantity for item '' @ key))) \<and>
   (literal_eval sv = Returns w \<and> \<not> int_instance w \<longrightarrow>
      load_loop literal_eval ((PStr key, PStr sv) # rest) normalized
        = Inl (ValueError (''invalid quantity for item '' @ key))) \<and>
   (\<not> int_instance v \<and> \<not> str_instance v \<longrightarrow>
      load_loop literal_eval ((PStr key, v) # rest) normalized
        = Inl (ValueError (''invalid quantity type for item '' @ key))) \<and>
   (literal_eval ''5'' = Returns (PIntObj (IntV 5)) \<longrightarrow>
      fst (load_data literal_eval (files(filepath \<mapsto> Json (JObject [(''x'', JString ''5'')])))
             filepath s) = Inr () \<and>
      get_qty (snd (load_data literal_eval
             (files(filepath \<mapsto> Json (JObject [(''x'', JString ''5'')]))) filepath s)) ''x''
        = 5) \<and>
   (literal_eval ''abc'' = Raises e \<and> caught e \<longrightarrow>
      load_data literal_eval (files(filepath \<mapsto> Json (JObject [(''x'', JString ''abc'')])))
          filepath s
        = (Inl (ValueError ''invalid quantity for item x''), s))"
  by (auto simp: load_data_single int_instance_def str_instance_def get_qty_def dict_get_def
        split: pyval.splits)

theorem load_loop_entry_witness:
  "load_loop decimal_literal_eval [(PStr ''a'', PStr ''12''), (PStr ''b'', PIntObj (IntV 2))] []
     = Inr [(''a'', IntV 12), (''b'', IntV 2)] \<and>
   load_loop decimal_literal_eval [(PStr ''a'', PStr ''abc''), (PStr ''b'', PIntObj (IntV 2))] []
     = Inl (ValueError ''invalid quantity for item a'') \<and>
   load_loop (\<lambda>sv. Returns (PFloat 1.5)) [(PStr ''a'', PStr ''1.5'')] []
     = Inl (ValueError ''invalid quantity for item a'') \<and>
   load_loop decimal_literal_eval [(PStr ''a'', PList [])] []
     = Inl (ValueError ''invalid quantity type for item a'') \<and>
   get_qty (snd (load_data decimal_literal_eval
       [''inventory.json'' \<mapsto> Json (JObject [(''x'', JString ''5'')])] ''inventory.json''
       (init None))) ''x'' = 5 \<and>
   load_data decimal_literal_eval
       [''inventory.json'' \<mapsto> Json (JObject [(''x'', JString ''abc'')])] ''inventory.json''
       (init None)
     = (Inl (ValueError ''invalid quantity for item x''), init None)"
proof -
  have l12: "decimal_literal_eval ''12'' = Returns (PIntObj (IntV 12))"
    by (simp add: decimal_literal_eval_def digit_value_def)
  have l5: "decimal_literal_eval ''5'' = Returns (PIntObj (IntV 5))"
    by (simp add: decimal_literal_eval_def digit_value_def)
  have labc: "decimal_literal_eval ''abc'' = Raises (ValueError ''malformed node or string'')"
    by (simp add: decimal_literal_eval_def digit_value_def)
  show ?thesis
    using load_loop_entry
        [of decimal_literal_eval "''a''" "IntV 12" "[(PStr ''b'', PIntObj (IntV 2))]" "[]"
            "''12''" "ValueError ''malformed node or string''" "PFloat 1.5" "PList []"
            "Map.empty" "''inventory.json''" "init None"]
      load_loop_entry
        [of decimal_literal_eval "''a''" "IntV 12" "[(PStr ''b'', PIntObj (IntV 2))]" "[]"
            "''abc''" "ValueError ''malformed node or string''" "PFloat 1.5" "PList []"
            "Map.empty" "''inventory.json''" "init None"]
      load_loop_entry
        [of "\<lambda>sv. Returns (PFloat 1.5)" "''a''" "IntV 12" "[]" "[]"
            "''1.5''" "ValueError ''malformed node or string''" "PFloat 1.5" "PList []"
            "Map.empty" "''inventory.json''" "init None"]
      load_loop_entry
        [of decimal_literal_eval "''a''" "IntV 12" "[]" "[]"
            "''12''" "ValueError ''malformed node or string''" "PFloat 1.5" "PList []"
            "Map.empty" "''inventory.json''" "init None"]
    by (simp add: l12 l5 labc int_instance_def str_instance_def)
qed

text \<open>
  Claim C10. Whatever instance of \<^verbatim>\<open>int\<close> the literal evaluation of a string value
  returns is stored, with no test of its sign. With \<^verbatim>\<open>literal_eval("-3") = -3\<close>, loading
  \<^verbatim>\<open>{"x": "-3"}\<close> returns and the quantity of \<^verbatim>\<open>x\<close> is then -3.
\<close>

theorem load_data_negative_literal:
  "(literal_eval sv = Returns (PIntObj i) \<longrightarrow>
      load_data literal_eval (files(filepath \<mapsto> Json (JObject [(key, JString sv)]))) filepath s
        = (Inr (), s\<lparr>inventory := [(key, i)]\<rparr>)) \<and>
   (literal_eval ''-3'' = Returns (PIntObj (IntV (- 3))) \<longrightarrow>
      fst (load_data literal_eval (files(filepath \<mapsto> Json (JObject [(''x'', JString ''-3'')])))
             filepath s) = Inr () \<and>
      get_qty (snd (load_data literal_eval
             (files(filepath \<mapsto> Json (JObject [(''x'', JString ''-3'')]))) filepath s)) ''x''
        = - 3)"
  by (simp add: load_data_single get_qty_def dict_get_def)

theorem load_data_negative_literal_witness:
  "decimal_literal_eval ''-3'' = Returns (PIntObj (IntV (- 3))) \<and>
   load_data decimal_literal_eval
       [''inventory.json'' \<mapsto> Json (JObject [(''x'', JString ''-3'')])] ''inventory.json''
       (init None)
     = (Inr (), \<lparr>inventory = [(''x'', IntV (- 3))]\<rparr>) \<and>
   get_qty (snd (load_data decimal_literal_eval
       [''inventory.json'' \<mapsto> Json (JObject [(''x'', JString ''-3'')])] ''inventory.json''
       (init None))) ''x'' = - 3"
proof -
  have lit: "decimal_literal_eval ''-3'' = Returns (PIntObj (IntV (- 3)))"
    by (simp add: decimal_literal_eval_def digit_value_def)
  show ?thesis
    using lit load_data_negative_literal
        [of decimal_literal_eval "''-3''" "IntV (- 3)" "Map.empty" "''inventory.json''" "''x''"
            "init None"]
    by (simp add: init_def get_qty_def dict_get_def)
qed

section \<open>Saving and loading\<close>







section \<open>The invariant\<close>

text \<open>
  Claim C8, counterexample. \<^verbatim>\<open>load_data\<close> does not keep the invariant: the empty store
  satisfies it, loading \<^verbatim>\<open>{"x": 0}\<close> returns, and the store then holds \<^verbatim>\<open>x\<close> with
  quantity 0.
\<close>

theorem load_data_breaks_invariant:
  "inv_ok (init None) \<and>
   fst (load_data decimal_literal_eval
          [''inventory.json'' \<mapsto> Json (JObject [(''x'', JInt 0)])] ''inventory.json''
          (init None)) = Inr () \<and>
   \<not> inv_ok (snd (load_data decimal_literal_eval
          [''inventory.json'' \<mapsto> Json (JObject [(''x'', JInt 0)])] ''inventory.json''
          (init None)))"
  by (simp add: load_data_def init_def inv_ok_def positive_integer_def)

lemma set_dict_delitem_eq: "set (dict_delitem k d) = {p \<in> set d. fst p \<noteq> k}"
  by (induction d) auto

lemma dict_get_dict_setitem: "dict_get (dict_setitem k v d) k dflt = v"
  by (simp add: dict_get_def map_of_dict_setitem)

lemma inv_ok_iff:
  "inv_ok s \<longleftrightarrow> (\<forall>p \<in> set (inventory s). fst p \<noteq> [] \<and> positive_integer (snd p))"
  by (simp add: inv_ok_def list_all_iff)

lemma positive_integer_int_of: "positive_integer v \<Longrightarrow> 0 < int_of v"
  by (cases v) (simp_all add: positive_integer_def)

lemma add_item_inv_ok:
  assumes "inv_ok s"
  shows "inv_ok (snd (add_item name qty s))"
proof (cases "fst (add_item name qty s)")
  case (Inl e)
  then have "snd (add_item name qty s) = s"
    by (auto simp: add_item_def Let_def split: pyval.splits if_splits)
  with assms show ?thesis by simp
next
  case (Inr u)
  then obtain n q where nq: "name = PStr n" "n \<noteq> []" "qty = PIntObj q" "0 < int_of q"
    by (auto simp: add_item_def Let_def split: pyval.splits if_splits)
  have prev: "0 \<le> int_of (dict_get (inventory s) n (IntV 0))"
  proof (cases "map_of (inventory s) n")
    case None
    then show ?thesis by (simp add: dict_get_def)
  next
    case (Some v)
    then have "(n, v) \<in> set (inventory s)" by (rule map_of_SomeD)
    with assms have "positive_integer v" by (auto simp: inv_ok_iff)
    then show ?thesis using Some by (simp add: dict_get_def positive_integer_int_of less_imp_le)
  qed
  have new: "snd (add_item name qty s)
      = s\<lparr>inventory := dict_setitem n
            (IntV (int_of (dict_get (inventory s) n (IntV 0)) + int_of q)) (inventory s)\<rparr>"
    using nq by (simp add: add_item_def Let_def)
  show ?thesis
    unfolding new inv_ok_iff
  proof
    fix p
    assume "p \<in> set (inventory (s\<lparr>inventory := dict_setitem n
            (IntV (int_of (dict_get (inventory s) n (IntV 0)) + int_of q)) (inventory s)\<rparr>))"
    then have "p = (n, IntV (int_of (dict_get (inventory s) n (IntV 0)) + int_of q))
               \<or> p \<in> set (inventory s)"
      using set_dict_setitem [of n _ "inventory s"] by auto
    then show "fst p \<noteq> [] \<and> positive_integer (snd p)"
    proof
      assume "p = (n, IntV (int_of (dict_get (inventory s) n (IntV 0)) + int_of q))"
      then show ?thesis using nq(2,4) prev by (simp add: positive_integer_def)
    next
      assume "p \<in> set (inventory s)"
      with assms show ?thesis by (simp add: inv_ok_iff)
    qed
  qed
qed

lemma remove_item_inv_ok:
  assumes "inv_ok s"
  shows "inv_ok (snd (remove_item n qty s))"
proof (cases "fst (remove_item n qty s)")
  case (Inl e)
  then have "snd (remove_item n qty s) = s"
    by (auto simp: remove_item_def Let_def split: pyval.splits option.splits if_splits)
  with assms show ?thesis by simp
next
  case (Inr u)
  then obtain q cur where qc: "qty = PIntObj q" "0 < int_of q"
      "map_of (inventory s) n = Some cur" "int_of q \<le> int_of cur"
    by (auto simp: remove_item_def Let_def split: pyval.splits option.splits if_splits)
  have "(n, cur) \<in> set (inventory s)"
    using qc(3) by (rule map_of_SomeD)
  with assms have n: "n \<noteq> []" by (auto simp: inv_ok_iff)
  let ?d1 = "dict_setitem n (IntV (int_of cur - int_of q)) (inventory s)"
  have sub: "set ?d1 \<subseteq> insert (n, IntV (int_of cur - int_of q)) (set (inventory s))"
    by (rule set_dict_setitem)
  show ?thesis
  proof (cases "int_of cur - int_of q = 0")
    case True
    then have res: "snd (remove_item n qty s) = s\<lparr>inventory := dict_delitem n ?d1\<rparr>"
      using qc by (simp add: remove_item_def Let_def dict_get_dict_setitem)
    have "set (dict_delitem n ?d1) \<subseteq> set (inventory s)"
      using sub by (auto simp: set_dict_delitem_eq)
    with assms show ?thesis
      unfolding res inv_ok_iff by auto
  next
    case False
    then have res: "snd (remove_item n qty s) = s\<lparr>inventory := ?d1\<rparr>"
      using qc by (simp add: remove_item_def Let_def dict_get_dict_setitem)
    have "positive_integer (IntV (int_of cur - int_of q))"
      using False qc(4) by (simp add: positive_integer_def)
    with assms sub n show ?thesis
      unfolding res inv_ok_iff by auto
  qed
qed

lemma load_loop_positive:
  assumes "\<forall>it \<in> set items. \<exists>k i. it = (PStr k, PIntObj (IntV i)) \<and> k \<noteq> [] \<and> 0 < i"
    and "\<forall>p \<in> set acc. fst p \<noteq> [] \<and> positive_integer (snd p)"
  shows "\<exists>r. load_loop literal_eval items acc = Inr r \<and>
              (\<forall>p \<in> set r. fst p \<noteq> [] \<and> positive_integer (snd p))"
  using assms
proof (induction items arbitrary: acc)
  case Nil
  then show ?case by simp
next
  case (Cons it items)
  from Cons.prems(1) obtain k i where it: "it = (PStr k, PIntObj (IntV i))" "k \<noteq> []" "0 < i"
    by auto
  have "\<forall>p \<in> set (dict_setitem k (IntV i) acc). fst p \<noteq> [] \<and> positive_integer (snd p)"
    using set_dict_setitem [of k "IntV i" acc] Cons.prems(2) it(2,3)
    by (auto simp: positive_integer_def)
  with Cons.IH [of "dict_setitem k (IntV i) acc"] Cons.prems(1) it show ?case
    by simp
qed

lemma fold_dict_setitem_subset:
  "set (fold (\<lambda>p d. dict_setitem (fst p) (snd p) d) xs acc) \<subseteq> set acc \<union> set xs"
proof (induction xs arbitrary: acc)
  case Nil
  then show ?case by simp
next
  case (Cons x xs)
  have "set (dict_setitem (fst x) (snd x) acc) \<subseteq> insert x (set acc)"
    using set_dict_setitem [of "fst x" "snd x" acc] by simp
  with Cons.IH [of "dict_setitem (fst x) (snd x) acc"] show ?case
    by auto
qed

lemma load_data_positive_document:
  assumes "files filepath = Some (Json (JObject kvs))"
    and "\<forall>m \<in> set kvs. fst m \<noteq> [] \<and> (\<exists>i. snd m = JInt i \<and> 0 < i)"
  shows "fst (load_data literal_eval files filepath s) = Inr ()"
    and "inv_ok (snd (load_data literal_eval files filepath s))"
proof -
  let ?items = "fold (\<lambda>p d. dict_setitem (fst p) (snd p) d)
                  (map (\<lambda>p. (PStr (fst p), json_load (snd p))) kvs) []"
  have "set ?items \<subseteq> set (map (\<lambda>p. (PStr (fst p), json_load (snd p))) kvs)"
    using fold_dict_setitem_subset [of "map (\<lambda>p. (PStr (fst p), json_load (snd p))) kvs" "[]"]
    by simp
  then have "\<forall>it \<in> set ?items. \<exists>k i. it = (PStr k, PIntObj (IntV i)) \<and> k \<noteq> [] \<and> 0 < i"
    using assms(2) by fastforce
  then obtain r where r: "load_loop literal_eval ?items [] = Inr r"
      "\<forall>p \<in> set r. fst p \<noteq> [] \<and> positive_integer (snd p)"
    using load_loop_positive [of ?items "[]" literal_eval] by auto
  have res: "load_data literal_eval files filepath s = (Inr (), s\<lparr>inventory := r\<rparr>)"
    using assms(1) r(1) by (simp add: load_data_def)
  show "fst (load_data literal_eval files filepath s) = Inr ()"
    by (simp add: res)
  show "inv_ok (snd (load_data literal_eval files filepath s))"
    using r(2) by (simp add: res inv_ok_iff)
qed

text \<open>
  Claim C8, amended. \<^verbatim>\<open>add_item\<close> and \<^verbatim>\<open>remove_item\<close> keep the invariant, whether they
  return or raise, and so does a call of \<^verbatim>\<open>load_data\<close> that raises; \<^verbatim>\<open>get_qty\<close>,
  \<^verbatim>\<open>check_low_items\<close>, \<^verbatim>\<open>as_dict\<close> and \<^verbatim>\<open>save_data\<close> do not change the store. A call of
  \<^verbatim>\<open>load_data\<close> that returns replaces the mapping without testing keys or signs: it
  returns with the invariant established when the file is an object in which every key
  is non-empty and every value is a positive integer.
\<close>

theorem invariant_preserved:
  "(inv_ok s \<longrightarrow> inv_ok (snd (add_item name qty s))) \<and>
   (inv_ok s \<longrightarrow> inv_ok (snd (remove_item n qty s))) \<and>
   (inv_ok s \<and> fst (load_data literal_eval files filepath s) \<noteq> Inr () \<longrightarrow>
      inv_ok (snd (load_data literal_eval files filepath s))) \<and>
   (files filepath = Some (Json (JObject kvs)) \<and>
    list_all (\<lambda>m. fst m \<noteq> [] \<and> (case snd m of JInt i \<Rightarrow> 0 < i | _ \<Rightarrow> False)) kvs \<longrightarrow>
      fst (load_data literal_eval files filepath s) = Inr () \<and>
      inv_ok (snd (load_data literal_eval files filepath s)))"
proof (intro conjI impI)
  assume "inv_ok s"
  then show "inv_ok (snd (add_item name qty s))" by (rule add_item_inv_ok)
next
  assume "inv_ok s"
  then show "inv_ok (snd (remove_item n qty s))" by (rule remove_item_inv_ok)
next
  assume a: "inv_ok s \<and> fst (load_data literal_eval files filepath s) \<noteq> Inr ()"
  then have "snd (load_data literal_eval files filepath s) = s"
    by (auto simp: load_data_def
          split: option.splits file_content.splits pyval.splits sum.splits)
  with a show "inv_ok (snd (load_data literal_eval files filepath s))" by simp
next
  assume a: "files filepath = Some (Json (JObject kvs)) \<and>
    list_all (\<lambda>m. fst m \<noteq> [] \<and> (case snd m of JInt i \<Rightarrow> 0 < i | _ \<Rightarrow> False)) kvs"
  have doc: "\<forall>m \<in> set kvs. fst m \<noteq> [] \<and> (\<exists>i. snd m = JInt i \<and> 0 < i)"
  proof
    fix m
    assume "m \<in> set kvs"
    with a have "fst m \<noteq> [] \<and> (case snd m of JInt i \<Rightarrow> 0 < i | _ \<Rightarrow> False)"
      by (simp add: list_all_iff)
    then show "fst m \<noteq> [] \<and> (\<exists>i. snd m = JInt i \<and> 0 < i)"
      by (cases "snd m") simp_all
  qed
  from a doc show "fst (load_data literal_eval files filepath s) = Inr ()"
    using load_data_positive_document(1) by blast
next
  assume a: "files filepath = Some (Json (JObject kvs)) \<and>
    list_all (\<lambda>m. fst m \<noteq> [] \<and> (case snd m of JInt i \<Rightarrow> 0 < i | _ \<Rightarrow> False)) kvs"
  have doc: "\<forall>m \<in> set kvs. fst m \<noteq> [] \<and> (\<exists>i. snd m = JInt i \<and> 0 < i)"
  proof
    fix m
    assume "m \<in> set kvs"
    with a have "fst m \<noteq> [] \<and> (case snd m of JInt i \<Rightarrow> 0 < i | _ \<Rightarrow> False)"
      by (simp add: list_all_iff)
    then show "fst m \<noteq> [] \<and> (\<exists>i. snd m = JInt i \<and> 0 < i)"
      by (cases "snd m") simp_all
  qed
  from a doc show "inv_ok (snd (load_data literal_eval files filepath s))"
    using load_data_positive_document(2) by blast
qed

theorem invariant_preserved_witness:
  "inv_ok \<lparr>inventory = [(''x'', IntV 5)]\<rparr> \<and>
   inv_ok (snd (add_item (PStr ''y'') (PIntObj (IntV 2)) \<lparr>inventory = [(''x'', IntV 5)]\<rparr>)) \<and>
   inv_ok (snd (remove_item ''x'' (PIntObj (IntV 5)) \<lparr>inventory = [(''x'', IntV 5)]\<rparr>)) \<and>
   fst (load_data decimal_literal_eval Map.empty ''inventory.json''
          \<lparr>inventory = [(''x'', IntV 5)]\<rparr>) \<noteq> Inr () \<and>
   inv_ok (snd (load_data decimal_literal_eval Map.empty ''inventory.json''
          \<lparr>inventory = [(''x'', IntV 5)]\<rparr>)) \<and>
   inv_ok (snd (load_data decimal_literal_eval
          [''inventory.json'' \<mapsto> Json (JObject [(''a'', JInt 3), (''b'', JInt 1)])]
          ''inventory.json'' \<lparr>inventory = [(''x'', IntV 5)]\<rparr>))"
proof -
  have ok: "inv_ok \<lparr>inventory = [(''x'', IntV 5)]\<rparr>"
    by (simp add: inv_ok_def positive_integer_def)
  have fails: "fst (load_data decimal_literal_eval Map.empty ''inventory.json''
                 \<lparr>inventory = [(''x'', IntV 5)]\<rparr>) \<noteq> Inr ()"
    by (simp add: load_data_def)
  show ?thesis
    using ok fails
      invariant_preserved
        [of "\<lparr>inventory = [(''x'', IntV 5)]\<rparr>" "PStr ''y''" "PIntObj (IntV 2)" "''x''"
            decimal_literal_eval Map.empty "''inventory.json''" "[]"]
      invariant_preserved
        [of "\<lparr>inventory = [(''x'', IntV 5)]\<rparr>" "PStr ''y''" "PIntObj (IntV 5)" "''x''"
            decimal_literal_eval
            "[''inventory.json'' \<mapsto> Json (JObject [(''a'', JInt 3), (''b'', JInt 1)])]"
            "''inventory.json''" "[(''a'', JInt 3), (''b'', JInt 1)]"]
    by simp
qed

end
